theory Spec2Isabelle
  imports Complex_Main "HOL-Library.Sublist" "HOL-Library.Char_ord" "HOL-Library.List_Lexorder"
begin

section \<open>Python values the services exchange\<close>

text \<open>
  A Python \<open>str\<close> is modelled as a \<open>string\<close> whose characters are the code points
  below 256; the emoji of the response templates are written as named byte sequences.
  A Python \<open>float\<close> is modelled by the real number it denotes: rounding to binary64
  and overflow to \<open>inf\<close> are not modelled.

  Every exception class the services raise or catch is a constructor of \<open>py_exc\<close>.
  All of them derive from \<open>Exception\<close>; \<open>json.JSONDecodeError\<close> derives from
  \<open>ValueError\<close>, the repository's \<open>ValidationError\<close> does not.
\<close>

datatype py_exc =
    ValueError string
  | JSONDecodeError string
  | ValidationError string
  | NameError string
  | KeyError string
  | IndexError string
  | ZeroDivisionError string
  | HTTPStatusError nat string string
  | TransportError string
  | Exception string

text \<open>\<open>str(e)\<close>: the message; a \<open>KeyError\<close> prints the \<open>repr\<close> of its key.
  \<open>HTTPStatusError code msg text\<close> carries the status code, the message httpx gave
  it and the text of the response.\<close>

fun str_exc :: "py_exc \<Rightarrow> string" where
  "str_exc (ValueError m) = m"
| "str_exc (JSONDecodeError m) = m"
| "str_exc (ValidationError m) = m"
| "str_exc (NameError m) = m"
| "str_exc (KeyError k) = [CHR 0x27] @ k @ [CHR 0x27]"
| "str_exc (IndexError m) = m"
| "str_exc (ZeroDivisionError m) = m"
| "str_exc (HTTPStatusError code m t) = m"
| "str_exc (TransportError m) = m"
| "str_exc (Exception m) = m"

text \<open>\<open>isinstance(e, ValueError)\<close>, what \<open>except ValueError\<close> catches.\<close>

fun is_ValueError :: "py_exc \<Rightarrow> bool" where
  "is_ValueError (ValueError m) = True"
| "is_ValueError (JSONDecodeError m) = True"
| "is_ValueError e = False"

text \<open>\<open>isinstance(e, httpx.HTTPStatusError)\<close>.\<close>

fun is_HTTPStatusError :: "py_exc \<Rightarrow> bool" where
  "is_HTTPStatusError (HTTPStatusError code m t) = True"
| "is_HTTPStatusError e = False"

type_synonym 'a result = "py_exc + 'a"

section \<open>Character classes and the regular expressions of module \<open>re\<close>\<close>

definition code_point :: "char \<Rightarrow> nat" where
  "code_point c = of_char c"

text \<open>\<open>\d\<close>, \<open>\s\<close>, \<open>[a-zA-Z]\<close> and \<open>\w\<close> of a \<open>str\<close> pattern, on the code points below
  256 (under \<open>re.IGNORECASE\<close> too: no other code point below 256 folds into them).\<close>

definition is_digit :: "char \<Rightarrow> bool" where
  "is_digit c = (48 \<le> code_point c \<and> code_point c \<le> 57)"

definition is_space :: "char \<Rightarrow> bool" where
  "is_space c = (let n = code_point c in
     (9 \<le> n \<and> n \<le> 13) \<or> (28 \<le> n \<and> n \<le> 32) \<or> n = 133 \<or> n = 160)"

definition is_upper :: "char \<Rightarrow> bool" where
  "is_upper c = (65 \<le> code_point c \<and> code_point c \<le> 90)"

definition is_lower :: "char \<Rightarrow> bool" where
  "is_lower c = (97 \<le> code_point c \<and> code_point c \<le> 122)"

definition is_alpha :: "char \<Rightarrow> bool" where
  "is_alpha c = (is_upper c \<or> is_lower c)"

definition is_word :: "char \<Rightarrow> bool" where
  "is_word c = (let n = code_point c in
     is_alpha c \<or> is_digit c \<or> n = 95 \<or> n = 170 \<or> n = 178 \<or> n = 179 \<or> n = 181
     \<or> n = 185 \<or> n = 186 \<or> (188 \<le> n \<and> n \<le> 190) \<or> (192 \<le> n \<and> n \<le> 214)
     \<or> (216 \<le> n \<and> n \<le> 246) \<or> 248 \<le> n)"

text \<open>\<open>str.upper\<close> and \<open>str.lower\<close>, modelled on the ASCII letters (the only
  characters the groups \<open>[a-zA-Z]{3}\<close> capture); the model leaves any other character
  as it is.\<close>

definition upper_char :: "char \<Rightarrow> char" where
  "upper_char c = (if is_lower c then char_of (code_point c - 32) else c)"

definition lower_char :: "char \<Rightarrow> char" where
  "lower_char c = (if is_upper c then char_of (code_point c + 32) else c)"

definition upper :: "string \<Rightarrow> string" where
  "upper s = map upper_char s"

definition lower :: "string \<Rightarrow> string" where
  "lower s = map lower_char s"

text \<open>
  The fragment of Python's regular expressions the patterns of the repository use.
  \<open>Many P\<close> is a greedy \<open>c*\<close> over a character class \<open>c\<close>, \<open>Opt r\<close> a greedy
  \<open>r?\<close>, \<open>Grp r\<close> a capturing group, \<open>Eos\<close> the anchor \<open>$\<close> (the end of the
  text, or just before a final newline).
\<close>

datatype rx =
    Eps
  | Cls "char \<Rightarrow> bool"
  | Many "char \<Rightarrow> bool"
  | Seq rx rx
  | Alt rx rx
  | Opt rx
  | Grp rx
  | Eos

text \<open>
  \<open>matches r s\<close> lists every way \<open>r\<close> matches a prefix of \<open>s\<close>, as the pair of the
  groups captured and the text left, in the order the backtracking matcher of
  \<open>re\<close> tries them: the longer repetition first, the left alternative first.
\<close>

primrec matches :: "rx \<Rightarrow> string \<Rightarrow> (string list \<times> string) list" where
  "matches Eps s = [([], s)]"
| "matches (Cls P) s = (case s of [] \<Rightarrow> [] | c # cs \<Rightarrow> if P c then [([], cs)] else [])"
| "matches (Many P) s =
     map (\<lambda>k. ([], drop k s)) (rev [0 ..< Suc (length (takeWhile P s))])"
| "matches (Seq a b) s =
     concat (map (\<lambda>(g, r). map (\<lambda>(h, r'). (g @ h, r')) (matches b r)) (matches a s))"
| "matches (Alt a b) s = matches a s @ matches b s"
| "matches (Opt a) s = matches a s @ [([], s)]"
| "matches (Grp a) s = map (\<lambda>(g, r). (take (length s - length r) s # g, r)) (matches a s)"
| "matches Eos s = (if s = [] \<or> s = [CHR 0x0A] then [([], s)] else [])"

text \<open>\<open>re.match\<close>: the first match at the start of the text, if any.\<close>

definition re_match :: "rx \<Rightarrow> string \<Rightarrow> (string list \<times> string) option" where
  "re_match r s = (case matches r s of [] \<Rightarrow> None | m # ms \<Rightarrow> Some m)"

text \<open>
  \<open>re.findall\<close>: scan from the left; where the pattern matches, keep the groups and go
  on after the match, otherwise move one character on. A match that consumes nothing
  is kept and the scan moves one character on; no pattern of the repository has one.
\<close>

fun findall :: "rx \<Rightarrow> string \<Rightarrow> string list list" where
  "findall r [] = (case re_match r [] of None \<Rightarrow> [] | Some (g, rest) \<Rightarrow> [g])"
| "findall r (c # cs) =
     (case re_match r (c # cs) of
        None \<Rightarrow> findall r cs
      | Some (g, rest) \<Rightarrow>
          if length rest < length (c # cs) then g # findall r rest
          else g # findall r cs)"

text \<open>Pattern builders: a literal under \<open>re.IGNORECASE\<close>, \<open>c+\<close>, a sequence.\<close>

definition chr_i :: "char \<Rightarrow> rx" where
  "chr_i x = Cls (\<lambda>c. lower_char c = lower_char x)"

definition chr_x :: "char \<Rightarrow> rx" where
  "chr_x x = Cls (\<lambda>c. c = x)"

definition many1 :: "(char \<Rightarrow> bool) \<Rightarrow> rx" where
  "many1 P = Seq (Cls P) (Many P)"

fun seqs :: "rx list \<Rightarrow> rx" where
  "seqs [] = Eps"
| "seqs [r] = r"
| "seqs (r # rs) = Seq r (seqs rs)"

definition lit_i :: "string \<Rightarrow> rx" where
  "lit_i s = seqs (map chr_i s)"

text \<open>\<open>\d+(?:\.\d+)?\<close>, the number of every conversion pattern.\<close>

definition number_rx :: rx where
  "number_rx = Seq (many1 is_digit) (Opt (Seq (chr_x (CHR ''.'')) (many1 is_digit)))"

definition code3 :: "(char \<Rightarrow> bool) \<Rightarrow> rx" where
  "code3 P = seqs [Cls P, Cls P, Cls P]"

section \<open>\<open>LLMService._extract_conversions\<close>\<close>

text \<open>\<open>self.conversion_pattern\<close>:
  \<^verbatim>\<open>(\d+(?:\.\d+)?)\s*([a-zA-Z]{3})\s*(?:to|in)\s*([a-zA-Z]{3})\<close>, used with
  \<open>re.IGNORECASE\<close>.\<close>

definition conversion_pattern :: rx where
  "conversion_pattern =
     seqs [Grp number_rx, Many is_space, Grp (code3 is_alpha), Many is_space,
           Alt (lit_i ''to'') (lit_i ''in''), Many is_space, Grp (code3 is_alpha)]"

text \<open>\<open>float(s)\<close> for the texts group 1 captures, digits with an optional fraction:
  the number the decimal text denotes.\<close>

definition digits_val :: "string \<Rightarrow> nat" where
  "digits_val ds = foldl (\<lambda>a c. 10 * a + (code_point c - 48)) 0 ds"

definition py_float :: "string \<Rightarrow> real" where
  "py_float s =
     (let ip = takeWhile (\<lambda>c. c \<noteq> CHR ''.'') s;
          fp = drop (Suc (length ip)) s
      in real (digits_val ip) + real (digits_val fp) / 10 ^ length fp)"

record conversion_request =
  amount :: real
  from_currency :: string
  to_currency :: string

text \<open>One dictionary per match, in the order \<open>re.findall\<close> returns the matches.
  Every match of the pattern has three groups.\<close>

fun request_of_match :: "string list \<Rightarrow> conversion_request list" where
  "request_of_match [a, f, t] =
     [\<lparr>amount = py_float a, from_currency = upper f, to_currency = upper t\<rparr>]"
| "request_of_match g = []"

definition extract_conversions :: "string \<Rightarrow> conversion_request list" where
  "extract_conversions query = concat (map request_of_match (findall conversion_pattern query))"

section \<open>The outside world: the rate service, the LLM service, the clock\<close>

text \<open>
  What an \<open>httpx\<close> request gives back: the client raises before any response
  arrives (\<open>ConnectFailed\<close>, with the message of the transport exception), or a
  response arrives with its status code, the message \<open>raise_for_status\<close> would
  give an \<open>HTTPStatusError\<close>, its text, and what \<open>response.json()\<close> makes of the
  body.
\<close>

datatype 'a json_body = BadJson string | Json 'a

datatype 'a response =
  Response (status_code: nat) (status_message: string) (response_text: string) (json: "'a json_body")

datatype 'a http_result = ConnectFailed string | Responded "'a response"

text \<open>\<open>client.get(...)\<close> or \<open>client.post(...)\<close>, then \<open>response.raise_for_status()\<close>
  (which raises unless the status is 2xx), then \<open>response.json()\<close>.\<close>

definition fetch_json :: "'a http_result \<Rightarrow> 'a result" where
  "fetch_json h =
     (case h of
        ConnectFailed m \<Rightarrow> Inl (TransportError m)
      | Responded r \<Rightarrow>
          if 200 \<le> status_code r \<and> status_code r < 300 then
            (case json r of BadJson m \<Rightarrow> Inl (JSONDecodeError m) | Json d \<Rightarrow> Inr d)
          else Inl (HTTPStatusError (status_code r) (status_message r) (response_text r)))"

text \<open>The body of the rate service: \<open>{"rates": {code: number}, "date": text}\<close>, each
  key present or not.\<close>

record rate_data =
  data_rates :: "(string \<rightharpoonup> real) option"
  data_date :: "string option"

text \<open>A chat message \<open>{"role": ..., "content": ...}\<close>.\<close>

record message =
  role :: string
  content :: string

text \<open>
  A tool call of the LLM: \<open>tool_call["function"]["name"]\<close> and what \<open>json.loads\<close>
  makes of \<open>tool_call["function"]["arguments"]\<close>: a \<open>JSONDecodeError\<close> with its
  message, or the decoded object, of which the model keeps the keys the dispatcher
  reads, each present or not, with values of the type the declared schema gives them.
\<close>

record arguments =
  arg_amount :: "real option"
  arg_from_currency :: "string option"
  arg_to_currency :: "string option"
  arg_date :: "string option"

datatype raw_arguments = NotJson string | Decoded arguments

record tool_call =
  function_name :: string
  function_arguments :: raw_arguments

text \<open>
  The message of a choice. Under \<open>"content"\<close> the JSON of the LLM service has a
  string or \<open>null\<close>, or the key is missing; \<open>json\<close> decodes \<open>null\<close> to \<open>None\<close>.
  Under \<open>"tool_calls"\<close> it has a list of tool calls, or nothing that counts as true
  (the key is missing, or its value is \<open>null\<close>). The body of the LLM service: the list
  under \<open>"choices"\<close> if the key is there, each choice with its \<open>"message"\<close> if that
  key is there.
\<close>

datatype content_value = Missing | Null | Content string

record reply =
  reply_content :: content_value
  reply_tool_calls :: "tool_call list option"

record chat_data =
  choices :: "reply option list option"

datatype net_call =
    GetLatest real string string
  | GetCurrencies
  | GetHistorical string string string
  | PostChat "message list"

text \<open>
  The world a call runs in: the answer of each endpoint to each request, today's date
  (year, month, day) and \<open>str\<close> of a float (Python's shortest round-trip text, not
  modelled). Every function that reaches the network returns, beside its result, the
  list of the requests it sent, in order.
\<close>

record world =
  get_latest :: "real \<Rightarrow> string \<Rightarrow> string \<Rightarrow> rate_data http_result"
  get_currencies :: "(string \<times> string) list http_result"
  get_historical :: "string \<Rightarrow> string \<Rightarrow> string \<Rightarrow> rate_data http_result"
  post_chat :: "message list \<Rightarrow> chat_data http_result"
  today :: "nat \<times> nat \<times> nat"
  float_str :: "real \<Rightarrow> string"

section \<open>Numbers and dates\<close>

definition digit_char :: "nat \<Rightarrow> char" where
  "digit_char n = char_of (48 + n mod 10)"

text \<open>\<open>str(n)\<close> of a natural number.\<close>

fun str_nat :: "nat \<Rightarrow> string" where
  "str_nat n = (if n < 10 then [digit_char n] else str_nat (n div 10) @ [digit_char n])"

text \<open>\<open>round(x, n)\<close>: to \<open>n\<close> decimals, a tie going to the even neighbour.\<close>

definition round_half_even :: "real \<Rightarrow> int" where
  "round_half_even y =
     (let f = \<lfloor>y\<rfloor>; d = y - of_int f
      in if d < 1 / 2 then f else if 1 / 2 < d then f + 1 else if even f then f else f + 1)"

definition py_round :: "real \<Rightarrow> nat \<Rightarrow> real" where
  "py_round x n = of_int (round_half_even (x * 10 ^ n)) / 10 ^ n"

text \<open>\<open>date.strftime("%Y-%m-%d")\<close> for a year of four digits.\<close>

definition strftime_ymd :: "nat \<times> nat \<times> nat \<Rightarrow> string" where
  "strftime_ymd d =
     (case d of (y, m, dd) \<Rightarrow>
        [digit_char (y div 1000), digit_char (y div 100), digit_char (y div 10), digit_char y]
        @ ''-'' @ [digit_char (m div 10), digit_char m]
        @ ''-'' @ [digit_char (dd div 10), digit_char dd])"

definition is_leap :: "nat \<Rightarrow> bool" where
  "is_leap y = (y mod 4 = 0 \<and> (y mod 400 = 0 \<or> y mod 100 \<noteq> 0))"

definition days_in_month :: "nat \<Rightarrow> nat \<Rightarrow> nat" where
  "days_in_month y m =
     (if m = 2 then (if is_leap y then 29 else 28)
      else if m = 4 \<or> m = 6 \<or> m = 9 \<or> m = 11 then 30 else 31)"

text \<open>Dates compare by year, then month, then day.\<close>

definition date_less :: "nat \<times> nat \<times> nat \<Rightarrow> nat \<times> nat \<times> nat \<Rightarrow> bool" where
  "date_less a b =
     (case a of (y, m, d) \<Rightarrow> case b of (y', m', d') \<Rightarrow>
        y < y' \<or> (y = y' \<and> (m < m' \<or> (m = m' \<and> d < d'))))"

definition range_rx :: "char \<Rightarrow> char \<Rightarrow> rx" where
  "range_rx lo hi = Cls (\<lambda>c. code_point lo \<le> code_point c \<and> code_point c \<le> code_point hi)"

text \<open>
  \<open>datetime.strptime(s, "%Y-%m-%d")\<close>. The standard library turns the format into the
  regular expression
  \<^verbatim>\<open>(?P<Y>\d\d\d\d)-(?P<m>1[0-2]|0[1-9]|[1-9])-(?P<d>3[0-1]|[1-2]\d|0[1-9]|[1-9]| [1-9])\<close>,
  matches it at the start of the text, refuses text left over, and builds the date,
  which fails for the year 0 and for a day the month does not have.
\<close>

definition strptime_rx :: rx where
  "strptime_rx =
     seqs [Grp (seqs [Cls is_digit, Cls is_digit, Cls is_digit, Cls is_digit]),
           chr_x (CHR ''-''),
           Grp (Alt (Seq (chr_x (CHR ''1'')) (range_rx (CHR ''0'') (CHR ''2'')))
               (Alt (Seq (chr_x (CHR ''0'')) (range_rx (CHR ''1'') (CHR ''9'')))
                    (range_rx (CHR ''1'') (CHR ''9'')))),
           chr_x (CHR ''-''),
           Grp (Alt (Seq (chr_x (CHR ''3'')) (range_rx (CHR ''0'') (CHR ''1'')))
               (Alt (Seq (range_rx (CHR ''1'') (CHR ''2'')) (Cls is_digit))
               (Alt (Seq (chr_x (CHR ''0'')) (range_rx (CHR ''1'') (CHR ''9'')))
               (Alt (range_rx (CHR ''1'') (CHR ''9''))
                    (Seq (chr_x (CHR '' '')) (range_rx (CHR ''1'') (CHR ''9'')))))))]"

definition quoted :: "string \<Rightarrow> string" where
  "quoted s = [CHR 0x27] @ s @ [CHR 0x27]"

definition strptime :: "string \<Rightarrow> (nat \<times> nat \<times> nat) result" where
  "strptime s =
     (case re_match strptime_rx s of
        None \<Rightarrow>
          Inl (ValueError (''time data '' @ quoted s @ '' does not match format '' @ quoted ''%Y-%m-%d''))
      | Some (g, rest) \<Rightarrow>
          if rest \<noteq> [] then Inl (ValueError (''unconverted data remains: '' @ rest))
          else
            (case g of
               [y, m, d] \<Rightarrow>
                 let yy = digits_val y; mm = digits_val m;
                     dd = digits_val (dropWhile is_space d)
                 in if yy = 0 then Inl (ValueError ''year 0 is out of range'')
                    else if days_in_month yy mm < dd
                    then Inl (ValueError ''day is out of range for month'')
                    else Inr (yy, mm, dd)
             | _ \<Rightarrow> Inl (IndexError ''no such group'')))"

section \<open>\<open>CurrencyService\<close>\<close>

definition supported_currencies :: "string set" where
  "supported_currencies =
     set [''USD'', ''EUR'', ''GBP'', ''JPY'', ''AUD'', ''CAD'', ''CHF'', ''CNY'', ''INR'',
          ''NZD'', ''SGD'', ''HKD'', ''SEK'', ''KRW'', ''NOK'', ''MXN'', ''BRL'', ''PLN'']"

text \<open>The dictionary \<open>convert_currency\<close> returns: the keys of the request and three
  more.\<close>

record conversion_result = conversion_request +
  converted_amount :: real
  exchange_rate :: real
  date :: string

text \<open>
  The \<open>try\<close> block of \<open>convert_currency\<close>: the two checks of the currency codes,
  then one \<open>GET /latest\<close> and the dictionary built from its body. The division by
  \<open>amount\<close> raises for the amount 0.
\<close>

definition convert_currency_try ::
  "world \<Rightarrow> real \<Rightarrow> string \<Rightarrow> string \<Rightarrow> conversion_result result \<times> net_call list" where
  "convert_currency_try w a f t =
     (if f \<notin> supported_currencies
      then (Inl (ValueError (''Unsupported source currency: '' @ f)), [])
      else if t \<notin> supported_currencies
      then (Inl (ValueError (''Unsupported target currency: '' @ t)), [])
      else
        ((case fetch_json (get_latest w a f t) of
            Inl e \<Rightarrow> Inl e
          | Inr data \<Rightarrow>
              (case data_rates data of
                 None \<Rightarrow> Inl (KeyError ''rates'')
               | Some rs \<Rightarrow>
                   (case rs t of
                      None \<Rightarrow> Inl (KeyError t)
                    | Some x \<Rightarrow>
                        if a = 0 then Inl (ZeroDivisionError ''float division by zero'')
                        else Inr \<lparr>amount = a, from_currency = f, to_currency = t,
                                  converted_amount = py_round x 2,
                                  exchange_rate = py_round (x / a) 6,
                                  date = (case data_date data of
                                            None \<Rightarrow> strftime_ymd (today w)
                                          | Some d \<Rightarrow> d)\<rparr>))),
         [GetLatest a f t]))"

text \<open>The handlers: a \<open>ValueError\<close> is raised again as it is, any other exception
  becomes the generic \<open>ValueError\<close>.\<close>

definition convert_currency ::
  "world \<Rightarrow> real \<Rightarrow> string \<Rightarrow> string \<Rightarrow> conversion_result result \<times> net_call list" where
  "convert_currency w a f t =
     (case convert_currency_try w a f t of
        (Inl e, sent) \<Rightarrow>
          if is_ValueError e then (Inl e, sent)
          else (Inl (ValueError (''Error converting '' @ f @ '' to '' @ t)), sent)
      | (Inr r, sent) \<Rightarrow> (Inr r, sent))"

text \<open>\<open>get_supported_currencies\<close>: the dictionary code to name, as the list of its
  items.\<close>

definition get_supported_currencies ::
  "world \<Rightarrow> (string \<times> string) list result \<times> net_call list" where
  "get_supported_currencies w =
     ((case fetch_json (get_currencies w) of
         Inl e \<Rightarrow> Inl (Exception (''Failed to fetch supported currencies: '' @ str_exc e))
       | Inr d \<Rightarrow> Inr d),
      [GetCurrencies])"

record historical_rate =
  hist_date :: string
  hist_from_currency :: string
  hist_to_currency :: string
  hist_exchange_rate :: real

text \<open>
  The inner \<open>try\<close> block of \<open>get_historical_rate\<close> under the comment
  \<open>Validate date format\<close>: \<open>strptime\<close>, then the comparison with
  \<open>datetime.now()\<close> (midnight of the parsed day is later than now exactly when the
  day is after today). Its handler replaces a \<open>ValueError\<close> whose text holds
  \<open>time data\<close> and raises any other again.
\<close>

definition check_date :: "world \<Rightarrow> string \<Rightarrow> unit result" where
  "check_date w date_str =
     (case (case strptime date_str of
              Inl e \<Rightarrow> Inl e
            | Inr parsed_date \<Rightarrow>
                if date_less (today w) parsed_date
                then Inl (ValueError ''Cannot get exchange rates for future dates'')
                else Inr ()) of
        Inl ve \<Rightarrow>
          if is_ValueError ve \<and> sublist ''time data'' (str_exc ve)
          then Inl (ValueError ''Invalid date format. Use YYYY-MM-DD'')
          else Inl ve
      | Inr u \<Rightarrow> Inr u)"

definition get_historical_rate_try ::
  "world \<Rightarrow> string \<Rightarrow> string \<Rightarrow> string \<Rightarrow> historical_rate result \<times> net_call list" where
  "get_historical_rate_try w date_str f0 t0 =
     (let f = upper f0; t = upper t0 in
      case check_date w date_str of
        Inl e \<Rightarrow> (Inl e, [])
      | Inr u \<Rightarrow>
          ((case fetch_json (get_historical w date_str f t) of
              Inl e \<Rightarrow> Inl e
            | Inr data \<Rightarrow>
                (case data_rates data of
                   None \<Rightarrow> Inl (KeyError ''rates'')
                 | Some rs \<Rightarrow>
                     (case rs t of
                        None \<Rightarrow>
                          Inl (ValueError (''Exchange rate not available for '' @ f @ '' to ''
                                 @ t @ '' on '' @ date_str))
                      | Some x \<Rightarrow>
                          (case data_date data of
                             None \<Rightarrow> Inl (KeyError ''date'')
                           | Some d \<Rightarrow>
                               Inr \<lparr>hist_date = d, hist_from_currency = f,
                                    hist_to_currency = t, hist_exchange_rate = x\<rparr>)))),
           [GetHistorical date_str f t]))"

text \<open>The outer handlers: an \<open>HTTPStatusError\<close> with status 400 becomes a
  \<open>ValueError\<close>, another status a service error; every other exception, the
  \<open>ValueError\<close>s of the date check among them, becomes a generic \<open>Exception\<close>.\<close>

definition get_historical_rate ::
  "world \<Rightarrow> string \<Rightarrow> string \<Rightarrow> string \<Rightarrow> historical_rate result \<times> net_call list" where
  "get_historical_rate w date_str f t =
     (case get_historical_rate_try w date_str f t of
        (Inl e, sent) \<Rightarrow>
          ((case e of
              HTTPStatusError code m txt \<Rightarrow>
                if code = 400 then Inl (ValueError (''Invalid request: '' @ txt))
                else Inl (Exception (''Historical rate service error: '' @ str_exc e))
            | _ \<Rightarrow> Inl (Exception (''Failed to fetch historical rate: '' @ str_exc e))),
           sent)
      | (Inr r, sent) \<Rightarrow> (Inr r, sent))"

text \<open>
  The names the module \<open>currency_service.py\<close> binds at its top level: its imports
  (\<open>httpx\<close>, \<open>re\<close>, \<open>Dict\<close>, \<open>List\<close>, \<open>Tuple\<close>, \<open>logging\<close>, \<open>datetime\<close>,
  \<open>settings\<close>), \<open>logger\<close> and the class. Reading a global name that is neither
  bound there nor a builtin raises \<open>NameError\<close>.
\<close>

definition currency_service_globals :: "string list" where
  "currency_service_globals =
     [''httpx'', ''re'', ''Dict'', ''List'', ''Tuple'', ''logging'', ''datetime'',
      ''settings'', ''logger'', ''CurrencyService'']"

definition load_global :: "string list \<Rightarrow> string \<Rightarrow> unit result" where
  "load_global names n =
     (if n \<in> set names then Inr ()
      else Inl (NameError (''name '' @ quoted n @ '' is not defined'')))"

text \<open>
  An entry of a result list: the dictionary of a conversion, or a dictionary with the
  key \<open>"error"\<close> and what the caller adds to it: the fields of the request
  (\<open>batch_convert_currencies\<close>), the request under \<open>"conversion"\<close>
  (\<open>convert_multiple_currencies\<close>) or the name under \<open>"function"\<close> (the tool calls).
\<close>

datatype failure_info =
    OfRequest real string string
  | OfConversion conversion_request
  | OfFunction string

datatype entry = Success conversion_result | Failure string failure_info

text \<open>\<open>asyncio.gather(*tasks, return_exceptions=True)\<close>: the result or the
  exception of every task, in the order of the tasks; the requests sent are listed in
  that order too.\<close>

definition gather ::
  "world \<Rightarrow> conversion_request list \<Rightarrow> conversion_result result list \<times> net_call list" where
  "gather w conversions =
     (map (\<lambda>c. fst (convert_currency w (amount c) (from_currency c) (to_currency c))) conversions,
      concat (map (\<lambda>c. snd (convert_currency w (amount c) (from_currency c) (to_currency c)))
                conversions))"

text \<open>
  \<open>convert_multiple_currencies\<close>: the loop that builds the tasks only creates
  coroutine objects; the next line reads the global name \<open>asyncio\<close>. Whatever is
  raised inside is caught and raised again as a generic \<open>Exception\<close>.
\<close>

definition convert_multiple_currencies ::
  "world \<Rightarrow> conversion_request list \<Rightarrow> entry list result \<times> net_call list" where
  "convert_multiple_currencies w conversions =
     (case load_global currency_service_globals ''asyncio'' of
        Inl e \<Rightarrow> (Inl (Exception (''Multiple currency conversion failed: '' @ str_exc e)), [])
      | Inr u \<Rightarrow>
          (case gather w conversions of
             (results, sent) \<Rightarrow>
               (Inr (map (\<lambda>(result, c).
                            case result of
                              Inl e \<Rightarrow> Failure (str_exc e) (OfConversion c)
                            | Inr r \<Rightarrow> Success r)
                        (zip results conversions)),
                sent)))"

text \<open>\<open>batch_convert_currencies\<close>: one conversion after the other, each in its own
  \<open>try\<close>.\<close>

fun batch_convert_currencies ::
  "world \<Rightarrow> (real \<times> string \<times> string) list \<Rightarrow> entry list \<times> net_call list" where
  "batch_convert_currencies w [] = ([], [])"
| "batch_convert_currencies w ((a, f, t) # conversions) =
     (case convert_currency w a f t of
        (r, sent) \<Rightarrow>
          (case batch_convert_currencies w conversions of
             (results, sent') \<Rightarrow>
               ((case r of
                   Inl e \<Rightarrow> Failure (str_exc e) (OfRequest a f t)
                 | Inr x \<Rightarrow> Success x) # results,
                sent @ sent')))"

text \<open>\<open>str.split(sep)\<close> for a separator that is not empty, and \<open>str.strip()\<close>.\<close>

fun split_on :: "string \<Rightarrow> string \<Rightarrow> string list" where
  "split_on sep [] = [[]]"
| "split_on sep (c # cs) =
     (if sep \<noteq> [] \<and> prefix sep (c # cs) then [] # split_on sep (drop (length sep - 1) cs)
      else (case split_on sep cs of [] \<Rightarrow> [[c]] | x # xs \<Rightarrow> (c # x) # xs))"

definition strip :: "string \<Rightarrow> string" where
  "strip s = rev (dropWhile is_space (rev (dropWhile is_space s)))"

text \<open>The pattern of \<open>parse_conversion_query\<close>:
  \<^verbatim>\<open>(?:convert\s+)?(\d+(?:\.\d+)?)\s+(\w{3})\s+to\s+(\w{3})\<close>, used with \<open>re.match\<close>
  and \<open>re.IGNORECASE\<close>.\<close>

definition parse_pattern :: rx where
  "parse_pattern =
     seqs [Opt (Seq (lit_i ''convert'') (many1 is_space)), Grp number_rx, many1 is_space,
           Grp (code3 is_word), many1 is_space, lit_i ''to'', many1 is_space,
           Grp (code3 is_word)]"

definition invalid_format :: "string \<Rightarrow> py_exc" where
  "invalid_format request =
     ValueError (''Invalid conversion format: '' @ quoted request @ ''. ''
       @ ''Use format: '100 USD to EUR' or '' @ quoted ''100 USD to EUR and 50 GBP to JPY'')"

text \<open>The loop over the requests: a request that does not match raises at once.\<close>

fun parse_requests ::
  "(real \<times> string \<times> string) list \<Rightarrow> string list \<Rightarrow> (real \<times> string \<times> string) list result" where
  "parse_requests conversions [] = Inr conversions"
| "parse_requests conversions (request # requests) =
     (case re_match parse_pattern (strip request) of
        None \<Rightarrow> Inl (invalid_format request)
      | Some (g, rest) \<Rightarrow>
          (case g of
             [a, f, t] \<Rightarrow> parse_requests (conversions @ [(py_float a, upper f, upper t)]) requests
           | _ \<Rightarrow> Inl (IndexError ''no such group'')))"

definition parse_conversion_query :: "string \<Rightarrow> (real \<times> string \<times> string) list result" where
  "parse_conversion_query query =
     (case parse_requests [] (map strip (split_on '' and '' query)) of
        Inl e \<Rightarrow> Inl e
      | Inr conversions \<Rightarrow>
          if conversions = [] then Inl (ValueError ''No valid currency conversions found in query'')
          else Inr conversions)"

section \<open>The validators of \<open>utils/validators.py\<close>\<close>

text \<open>\<open>CurrencyValidator.validate_amount\<close> on a number.\<close>

definition validate_amount :: "world \<Rightarrow> real \<Rightarrow> real result" where
  "validate_amount w a =
     (if a \<le> 0 then Inl (ValidationError (''Amount must be positive: '' @ float_str w a))
      else if 10 ^ 12 < a then Inl (ValidationError (''Amount is too large: '' @ float_str w a))
      else Inr a)"

text \<open>\<open>DateValidator.validate_date_string\<close>; its pattern is
  \<^verbatim>\<open>^\d{4}-\d{2}-\d{2}$\<close>, tried with \<open>re.match\<close>, which starts at the
  beginning of the text, so that the anchor \<open>^\<close> adds nothing.\<close>

definition date_pattern :: rx where
  "date_pattern =
     seqs [Cls is_digit, Cls is_digit, Cls is_digit, Cls is_digit, chr_x (CHR ''-''),
           Cls is_digit, Cls is_digit, chr_x (CHR ''-''), Cls is_digit, Cls is_digit, Eos]"

definition min_date :: "nat \<times> nat \<times> nat" where
  "min_date = (1999, 1, 4)"

definition validate_date_string :: "world \<Rightarrow> string \<Rightarrow> string result" where
  "validate_date_string w date_str =
     (if date_str = [] then Inl (ValidationError ''Date cannot be empty'')
      else if re_match date_pattern date_str = None
      then Inl (ValidationError (''Date must be in YYYY-MM-DD format: '' @ date_str))
      else
        (case strptime date_str of
           Inl e \<Rightarrow>
             if is_ValueError e then
               (if sublist ''time data'' (str_exc e)
                then Inl (ValidationError (''Invalid date: '' @ date_str))
                else Inl (ValidationError (''Date validation error: '' @ str_exc e)))
             else Inl e
         | Inr parsed_date \<Rightarrow>
             if date_less (today w) parsed_date
             then Inl (ValidationError (''Date cannot be in the future: '' @ date_str))
             else if date_less parsed_date min_date
             then Inl (ValidationError (''Date cannot be earlier than 1999-01-04: '' @ date_str))
             else Inr date_str))"

text \<open>\<open>CurrencyValidator.validate_currency_code\<close>; \<open>str.isalpha\<close> on the code points
  below 256.\<close>

definition is_letter :: "char \<Rightarrow> bool" where
  "is_letter c = (let n = code_point c in
     is_alpha c \<or> n = 170 \<or> n = 181 \<or> n = 186 \<or> (192 \<le> n \<and> n \<le> 214)
     \<or> (216 \<le> n \<and> n \<le> 246) \<or> 248 \<le> n)"

definition validate_currency_code :: "string \<Rightarrow> string result" where
  "validate_currency_code currency_code =
     (if currency_code = [] then Inl (ValidationError ''Currency code cannot be empty'')
      else
        let code = upper (strip currency_code) in
        if length code \<noteq> 3
        then Inl (ValidationError (''Currency code must be 3 characters long: '' @ code))
        else if \<not> list_all is_letter code
        then Inl (ValidationError (''Currency code must contain only letters: '' @ code))
        else Inr code)"

definition validate_conversion_request ::
  "world \<Rightarrow> real \<Rightarrow> string \<Rightarrow> string \<Rightarrow> (real \<times> string \<times> string) result" where
  "validate_conversion_request w a f t =
     (case validate_amount w a of
        Inl e \<Rightarrow> Inl e
      | Inr validated_amount \<Rightarrow>
          (case validate_currency_code f of
             Inl e \<Rightarrow> Inl e
           | Inr validated_from \<Rightarrow>
               (case validate_currency_code t of
                  Inl e \<Rightarrow> Inl e
                | Inr validated_to \<Rightarrow> Inr (validated_amount, validated_from, validated_to))))"

text \<open>
  \<open>ConversionExtractor\<close>, which no other module uses. Its three patterns:
  \<^verbatim>\<open>(\d+(?:\.\d+)?)\s*([a-zA-Z]{3})\s+(?:to|in|into)\s+([a-zA-Z]{3})\<close>, the same after
  \<^verbatim>\<open>(?:convert|change)\s+\<close>, and
  \<^verbatim>\<open>(\d+(?:\.\d+)?)\s*(dollars?|euros?|pounds?|yen)\s+(?:to|in|into)\s+(dollars?|euros?|pounds?|yen)\<close>.
\<close>

definition separator_rx :: rx where
  "separator_rx = Alt (lit_i ''to'') (Alt (lit_i ''in'') (lit_i ''into''))"

definition currency_name_rx :: rx where
  "currency_name_rx =
     Alt (Seq (lit_i ''dollar'') (Opt (chr_i (CHR ''s''))))
    (Alt (Seq (lit_i ''euro'') (Opt (chr_i (CHR ''s''))))
    (Alt (Seq (lit_i ''pound'') (Opt (chr_i (CHR ''s''))))
         (lit_i ''yen'')))"

definition CONVERSION_PATTERNS :: "rx list" where
  "CONVERSION_PATTERNS =
     [seqs [Grp number_rx, Many is_space, Grp (code3 is_alpha), many1 is_space,
            separator_rx, many1 is_space, Grp (code3 is_alpha)],
      seqs [Alt (lit_i ''convert'') (lit_i ''change''), many1 is_space,
            Grp number_rx, Many is_space, Grp (code3 is_alpha), many1 is_space,
            separator_rx, many1 is_space, Grp (code3 is_alpha)],
      seqs [Grp number_rx, Many is_space, Grp currency_name_rx, many1 is_space,
            separator_rx, many1 is_space, Grp currency_name_rx]]"

text \<open>\<open>CURRENCY_NAME_MAP.get(name.lower(), name.upper())\<close>.\<close>

definition CURRENCY_NAME_MAP :: "string \<rightharpoonup> string" where
  "CURRENCY_NAME_MAP =
     [''dollar'' \<mapsto> ''USD'', ''dollars'' \<mapsto> ''USD'', ''euro'' \<mapsto> ''EUR'', ''euros'' \<mapsto> ''EUR'',
      ''pound'' \<mapsto> ''GBP'', ''pounds'' \<mapsto> ''GBP'', ''yen'' \<mapsto> ''JPY'']"

definition currency_of_name :: "string \<Rightarrow> string" where
  "currency_of_name name =
     (case CURRENCY_NAME_MAP (lower name) of None \<Rightarrow> upper name | Some code \<Rightarrow> code)"

text \<open>One match: the conversion it gives, or nothing when the validation raises (the
  handler logs a warning and goes on).\<close>

fun conversion_of_match :: "world \<Rightarrow> string list \<Rightarrow> (real \<times> string \<times> string) list" where
  "conversion_of_match w [amount_str, from_curr, to_curr] =
     (case validate_conversion_request w (py_float amount_str) (currency_of_name from_curr)
             (currency_of_name to_curr) of
        Inl e \<Rightarrow> []
      | Inr validated \<Rightarrow> [validated])"
| "conversion_of_match w g = []"

text \<open>The last loop: duplicates are removed, the first of each kept.\<close>

fun unique_conversions :: "'a list \<Rightarrow> 'a list \<Rightarrow> 'a list" where
  "unique_conversions seen [] = []"
| "unique_conversions seen (conv # conversions) =
     (if conv \<in> set seen then unique_conversions seen conversions
      else conv # unique_conversions (conv # seen) conversions)"

definition ConversionExtractor_extract_conversions ::
  "world \<Rightarrow> string \<Rightarrow> (real \<times> string \<times> string) list" where
  "ConversionExtractor_extract_conversions w txt =
     (let text_lower = lower txt in
      unique_conversions []
        (concat (map (\<lambda>pattern. concat (map (conversion_of_match w) (findall pattern text_lower)))
                   CONVERSION_PATTERNS)))"

section \<open>\<open>LLMService\<close>: the formatters\<close>

text \<open>The symbols of the response templates, as their UTF-8 bytes: the cross mark,
  the money bag, the bar chart, the calendar, the currency exchange sign, the
  bullet.\<close>

definition cross_mark :: string where
  "cross_mark = [CHR 0xE2, CHR 0x9D, CHR 0x8C]"

definition money_bag :: string where
  "money_bag = [CHR 0xF0, CHR 0x9F, CHR 0x92, CHR 0xB0]"

definition bar_chart :: string where
  "bar_chart = [CHR 0xF0, CHR 0x9F, CHR 0x93, CHR 0x8A]"

definition calendar :: string where
  "calendar = [CHR 0xF0, CHR 0x9F, CHR 0x93, CHR 0x85]"

definition exchange_sign :: string where
  "exchange_sign = [CHR 0xF0, CHR 0x9F, CHR 0x92, CHR 0xB1]"

definition bullet :: string where
  "bullet = [CHR 0xE2, CHR 0x80, CHR 0xA2]"

text \<open>\<open>sep.join(parts)\<close>.\<close>

definition join :: "string \<Rightarrow> string list \<Rightarrow> string" where
  "join sep parts = (case parts of [] \<Rightarrow> [] | p # ps \<Rightarrow> p @ concat (map (\<lambda>q. sep @ q) ps))"

text \<open>One section of \<open>_format_multiple_conversions_response\<close>: an entry with the key
  \<open>"error"\<close> shows the error line only.\<close>

definition format_entry :: "world \<Rightarrow> nat \<Rightarrow> entry \<Rightarrow> string" where
  "format_entry w i e =
     (case e of
        Failure msg info \<Rightarrow>
          ''**Conversion '' @ str_nat i @ '':**\<newline>''
          @ cross_mark @ '' Error: '' @ msg @ ''\<newline>''
      | Success r \<Rightarrow>
          ''**Conversion '' @ str_nat i @ '':**\<newline>''
          @ money_bag @ '' '' @ float_str w (amount r) @ '' '' @ from_currency r @ '' = ''
          @ ''**'' @ float_str w (converted_amount r) @ '' '' @ to_currency r @ ''**\<newline>''
          @ bar_chart @ '' Exchange Rate: 1 '' @ from_currency r @ '' = ''
          @ float_str w (exchange_rate r) @ '' '' @ to_currency r @ ''\<newline>''
          @ calendar @ '' Rate Date: '' @ date r @ ''\<newline>'')"

definition format_multiple_conversions_response :: "world \<Rightarrow> entry list \<Rightarrow> string" where
  "format_multiple_conversions_response w results =
     (if results = [] then ''I couldn't process any conversions from your request.''
      else join ''\<newline>''
             (map (\<lambda>(i, e). format_entry w i e) (zip [1 ..< Suc (length results)] results)))"

definition format_supported_currencies :: "(string \<times> string) list \<Rightarrow> string" where
  "format_supported_currencies currencies =
     ''Here are the supported currencies:\<newline>\<newline>''
     @ join ''\<newline>''
         (map (\<lambda>(code, name). bullet @ '' **'' @ code @ ''** - '' @ name)
            (sort_key fst currencies))"

definition format_historical_rate :: "world \<Rightarrow> historical_rate \<Rightarrow> string" where
  "format_historical_rate w rate_data =
     ''**Historical Exchange Rate**\<newline>''
     @ calendar @ '' Date: '' @ hist_date rate_data @ ''\<newline>''
     @ exchange_sign @ '' 1 '' @ hist_from_currency rate_data @ '' = ''
     @ float_str w (hist_exchange_rate rate_data) @ '' '' @ hist_to_currency rate_data
     @ ''\<newline>''"

section \<open>\<open>LLMService._handle_tool_calls\<close>\<close>

text \<open>
  What one pass of the loop does with the list \<open>results\<close> and the loop: it appends an
  entry, it changes nothing, or it leaves the function with a text.
\<close>

datatype step = Append entry | Skip | Return string

text \<open>
  The \<open>try\<close> block of the loop body: the name, \<open>json.loads\<close> of the arguments, then
  the chain of \<open>if\<close> and \<open>elif\<close> on the name, which has no \<open>else\<close>. Reading a key
  the arguments do not have raises \<open>KeyError\<close>.
\<close>

definition tool_call_try :: "world \<Rightarrow> tool_call \<Rightarrow> step result \<times> net_call list" where
  "tool_call_try w tc =
     (case function_arguments tc of
        NotJson m \<Rightarrow> (Inl (JSONDecodeError m), [])
      | Decoded args \<Rightarrow>
          if function_name tc = ''convert_currency'' then
            (case arg_amount args of
               None \<Rightarrow> (Inl (KeyError ''amount''), [])
             | Some a \<Rightarrow>
                 (case arg_from_currency args of
                    None \<Rightarrow> (Inl (KeyError ''from_currency''), [])
                  | Some f \<Rightarrow>
                      (case arg_to_currency args of
                         None \<Rightarrow> (Inl (KeyError ''to_currency''), [])
                       | Some t \<Rightarrow>
                           (case convert_currency w a f t of
                              (Inl e, sent) \<Rightarrow> (Inl e, sent)
                            | (Inr r, sent) \<Rightarrow> (Inr (Append (Success r)), sent)))))
          else if function_name tc = ''get_supported_currencies'' then
            (case get_supported_currencies w of
               (Inl e, sent) \<Rightarrow> (Inl e, sent)
             | (Inr currencies, sent) \<Rightarrow>
                 (Inr (Return (format_supported_currencies currencies)), sent))
          else if function_name tc = ''get_historical_rate'' then
            (case arg_date args of
               None \<Rightarrow> (Inl (KeyError ''date''), [])
             | Some d \<Rightarrow>
                 (case arg_from_currency args of
                    None \<Rightarrow> (Inl (KeyError ''from_currency''), [])
                  | Some f \<Rightarrow>
                      (case arg_to_currency args of
                         None \<Rightarrow> (Inl (KeyError ''to_currency''), [])
                       | Some t \<Rightarrow>
                           (case get_historical_rate w d f t of
                              (Inl e, sent) \<Rightarrow> (Inl e, sent)
                            | (Inr r, sent) \<Rightarrow> (Inr (Return (format_historical_rate w r)), sent)))))
          else (Inr Skip, []))"

text \<open>The loop body with its handler: any exception becomes an error entry that
  names the function.\<close>

definition handle_tool_call :: "world \<Rightarrow> tool_call \<Rightarrow> step \<times> net_call list" where
  "handle_tool_call w tc =
     (case tool_call_try w tc of
        (Inl e, sent) \<Rightarrow> (Append (Failure (str_exc e) (OfFunction (function_name tc))), sent)
      | (Inr s, sent) \<Rightarrow> (s, sent))"

datatype loop_end = Returned string | Collected "entry list"

fun tool_loop :: "world \<Rightarrow> entry list \<Rightarrow> tool_call list \<Rightarrow> loop_end \<times> net_call list" where
  "tool_loop w results [] = (Collected results, [])"
| "tool_loop w results (tc # tcs) =
     (case handle_tool_call w tc of
        (Return txt, sent) \<Rightarrow> (Returned txt, sent)
      | (Append e, sent) \<Rightarrow>
          (case tool_loop w (results @ [e]) tcs of (out, sent') \<Rightarrow> (out, sent @ sent'))
      | (Skip, sent) \<Rightarrow>
          (case tool_loop w results tcs of (out, sent') \<Rightarrow> (out, sent @ sent')))"

definition handle_tool_calls :: "world \<Rightarrow> tool_call list \<Rightarrow> string \<times> net_call list" where
  "handle_tool_calls w tool_calls =
     (case tool_loop w [] tool_calls of
        (Returned txt, sent) \<Rightarrow> (txt, sent)
      | (Collected results, sent) \<Rightarrow>
          (if results \<noteq> [] then format_multiple_conversions_response w results
           else ''I couldn't execute the requested function calls.'',
           sent))"

section \<open>\<open>LLMService._process_with_llm\<close> and \<open>LLMService.process_query\<close>\<close>

definition SYSTEM_PROMPT :: string where
  "SYSTEM_PROMPT =
     ''You are a helpful currency conversion assistant. You can:\<newline>\<newline>''
     @ ''1. Convert currencies using real-time exchange rates\<newline>''
     @ ''2. Handle multiple currency conversions in a single request\<newline>''
     @ ''3. Provide information about supported currencies\<newline>''
     @ ''4. Get historical exchange rates for specific dates\<newline>\<newline>''
     @ ''Always provide clear, accurate information about currency conversions. ''
     @ ''When multiple conversions are requested, process all of them and present ''
     @ ''the results clearly.\<newline>\<newline>''
     @ ''If a user asks about something unrelated to currency conversion, politely ''
     @ ''redirect them to currency-related topics.\<newline>\<newline>''
     @ ''Format your responses in a clear, user-friendly manner with:\<newline>''
     @ ''- The original amount and currency\<newline>''
     @ ''- The converted amount and target currency\<newline>''
     @ ''- The exchange rate used\<newline>''
     @ ''- The date of the exchange rate\<newline>\<newline>''
     @ ''For multiple conversions, present each conversion in a separate, clearly ''
     @ ''marked section.''"

text \<open>The messages of the request: the system prompt, the last ten messages of the
  history if there is one, the query. The other fields of the payload (model, token
  limit, temperature, tools) are constants of the configuration.\<close>

definition chat_messages :: "string \<Rightarrow> message list option \<Rightarrow> message list" where
  "chat_messages query conversation_history =
     [\<lparr>role = ''system'', content = SYSTEM_PROMPT\<rparr>]
     @ (case conversation_history of None \<Rightarrow> [] | Some h \<Rightarrow> drop (length h - 10) h)
     @ [\<lparr>role = ''user'', content = query\<rparr>]"

definition connect_apology :: string where
  "connect_apology = ''I'm having trouble connecting to the AI service. Please try again.''"

definition generic_apology :: string where
  "generic_apology = ''I encountered an error processing your request. Please try again.''"

text \<open>
  What \<open>_process_with_llm\<close> and \<open>process_query\<close> hand to their caller: both are
  annotated \<open>str\<close>, and both return whatever \<open>message.get("content", ...)\<close> gives,
  which is \<open>None\<close> when the key is there with the value \<open>null\<close>.
\<close>

datatype returned = Str string | NoneValue

text \<open>The \<open>try\<close> block of \<open>_process_with_llm\<close>: the request, then
  \<open>data["choices"][0]["message"]\<close>, then the tool calls if the message has any, else
  \<open>message.get("content", "I couldn't process your request.")\<close>: the default stands
  in for a missing key only.\<close>

definition process_with_llm_try ::
  "world \<Rightarrow> string \<Rightarrow> message list option \<Rightarrow> returned result \<times> net_call list" where
  "process_with_llm_try w query conversation_history =
     (let messages = chat_messages query conversation_history in
      case fetch_json (post_chat w messages) of
        Inl e \<Rightarrow> (Inl e, [PostChat messages])
      | Inr data \<Rightarrow>
          (case choices data of
             None \<Rightarrow> (Inl (KeyError ''choices''), [PostChat messages])
           | Some [] \<Rightarrow> (Inl (IndexError ''list index out of range''), [PostChat messages])
           | Some (None # cs) \<Rightarrow> (Inl (KeyError ''message''), [PostChat messages])
           | Some (Some msg # cs) \<Rightarrow>
               (case reply_tool_calls msg of
                  Some (tc # tcs) \<Rightarrow>
                    (case handle_tool_calls w (tc # tcs) of
                       (txt, sent) \<Rightarrow> (Inr (Str txt), PostChat messages # sent))
                | _ \<Rightarrow>
                    (Inr (case reply_content msg of
                            Missing \<Rightarrow> Str ''I couldn't process your request.''
                          | Null \<Rightarrow> NoneValue
                          | Content c \<Rightarrow> Str c),
                     [PostChat messages]))))"

text \<open>The handlers of \<open>_process_with_llm\<close>: an \<open>HTTPStatusError\<close> gives the
  connection apology, any other exception the generic one.\<close>

definition process_with_llm ::
  "world \<Rightarrow> string \<Rightarrow> message list option \<Rightarrow> returned \<times> net_call list" where
  "process_with_llm w query conversation_history =
     (case process_with_llm_try w query conversation_history of
        (Inl e, sent) \<Rightarrow>
          (Str (if is_HTTPStatusError e then connect_apology else generic_apology), sent)
      | (Inr v, sent) \<Rightarrow> (v, sent))"

text \<open>The \<open>try\<close> block of \<open>process_query\<close>: with one conversion or more the direct
  path, else the LLM.\<close>

definition process_query_try ::
  "world \<Rightarrow> string \<Rightarrow> message list option \<Rightarrow> returned result \<times> net_call list" where
  "process_query_try w query conversation_history =
     (let conversions = extract_conversions query in
      if 1 \<le> length conversions then
        (case convert_multiple_currencies w conversions of
           (Inl e, sent) \<Rightarrow> (Inl e, sent)
         | (Inr results, sent) \<Rightarrow>
             (Inr (Str (format_multiple_conversions_response w results)), sent))
      else
        (case process_with_llm w query conversation_history of
           (v, sent) \<Rightarrow> (Inr v, sent)))"

text \<open>\<open>process_query\<close>: the handler turns an exception of the block into a text. The
  result is \<open>Inr\<close> of the value returned, or \<open>Inl\<close> of an exception that leaves the
  function.\<close>

definition process_query ::
  "world \<Rightarrow> string \<Rightarrow> message list option \<Rightarrow> returned result \<times> net_call list" where
  "process_query w query conversation_history =
     (case process_query_try w query conversation_history of
        (Inl e, sent) \<Rightarrow>
          (Inr (Str (''I apologize, but I encountered an error processing your request: ''
                     @ str_exc e)), sent)
      | (Inr v, sent) \<Rightarrow> (Inr v, sent))"

section \<open>Worlds to run the services in\<close>

text \<open>A stand-in for \<open>str\<close> of a float in these worlds: a whole number that is not
  negative prints as Python prints it (\<open>100.0\<close>), any other number as a question
  mark.\<close>

definition whole_float_str :: "real \<Rightarrow> string" where
  "whole_float_str x = (if x = of_int \<lfloor>x\<rfloor> \<and> 0 \<le> x then str_nat (nat \<lfloor>x\<rfloor>) @ ''.0'' else ''?'')"

text \<open>A rate service that answers 85.0 EUR to every request, dated 2024-01-15, and an
  LLM service that cannot be reached.\<close>

definition eur_world :: world where
  "eur_world =
     \<lparr>get_latest = (\<lambda>a f t.
         Responded (Response 200 ''OK'' ''''
           (Json \<lparr>data_rates = Some [''EUR'' \<mapsto> 85], data_date = Some ''2024-01-15''\<rparr>))),
      get_currencies = Responded (Response 200 ''OK'' '''' (Json [(''USD'', ''United States Dollar'')])),
      get_historical = (\<lambda>d f t.
         Responded (Response 200 ''OK'' ''''
           (Json \<lparr>data_rates = Some [''EUR'' \<mapsto> 85 / 100], data_date = Some ''1999-01-04''\<rparr>))),
      post_chat = (\<lambda>ms. ConnectFailed ''All connection attempts failed''),
      today = (2024, 1, 15),
      float_str = whole_float_str\<rparr>"

text \<open>A world where nothing answers.\<close>

definition offline_world :: world where
  "offline_world =
     \<lparr>get_latest = (\<lambda>a f t. ConnectFailed ''All connection attempts failed''),
      get_currencies = ConnectFailed ''All connection attempts failed'',
      get_historical = (\<lambda>d f t. ConnectFailed ''All connection attempts failed''),
      post_chat = (\<lambda>ms. ConnectFailed ''All connection attempts failed''),
      today = (2024, 1, 15),
      float_str = whole_float_str\<rparr>"

text \<open>A world where the LLM service answers with status 503 and nothing else
  answers.\<close>

definition busy_llm_world :: world where
  "busy_llm_world =
     offline_world\<lparr>post_chat :=
       (\<lambda>ms. Responded (Response 503 ''Server error 503 Service Unavailable'' ''''
                (BadJson ''Expecting value: line 1 column 1 (char 0)'')))\<rparr>"

text \<open>Worlds where the LLM service answers with status 200 and nothing else answers:
  its body is a message with a text, a message whose content is \<open>null\<close>, a message
  without content, a body that is not JSON, and a body without choices.\<close>

definition llm_world :: "chat_data json_body \<Rightarrow> world" where
  "llm_world body = offline_world\<lparr>post_chat := (\<lambda>ms. Responded (Response 200 ''OK'' [] body))\<rparr>"

definition text_reply_world :: world where
  "text_reply_world =
     llm_world (Json \<lparr>choices = Some [Some \<lparr>reply_content = Content ''I only convert currencies.'',
                                             reply_tool_calls = None\<rparr>]\<rparr>)"

definition null_content_world :: world where
  "null_content_world =
     llm_world (Json \<lparr>choices = Some [Some \<lparr>reply_content = Null, reply_tool_calls = None\<rparr>]\<rparr>)"

definition no_content_world :: world where
  "no_content_world =
     llm_world (Json \<lparr>choices = Some [Some \<lparr>reply_content = Missing, reply_tool_calls = None\<rparr>]\<rparr>)"

definition bad_body_world :: world where
  "bad_body_world = llm_world (BadJson ''Expecting value: line 1 column 1 (char 0)'')"

definition no_choices_world :: world where
  "no_choices_world = llm_world (Json \<lparr>choices = Some []\<rparr>)"




section \<open>Notions the properties are stated with\<close>

text \<open>The entry \<open>batch_convert_currencies\<close> makes of one request.\<close>

definition batch_entry :: "world \<Rightarrow> real \<times> string \<times> string \<Rightarrow> entry" where
  "batch_entry w c =
     (case c of (a, f, t) \<Rightarrow>
        case fst (convert_currency w a f t) of
          Inl e \<Rightarrow> Failure (str_exc e) (OfRequest a f t)
        | Inr x \<Rightarrow> Success x)"




text \<open>The texts \<^verbatim>\<open>\d+(?:\.\d+)?\<close> matches in full: digits, or digits, a dot and
  digits.\<close>

definition is_number :: "string \<Rightarrow> bool" where
  "is_number n =
     (let ip = takeWhile is_digit n; r = dropWhile is_digit n
      in ip \<noteq> [] \<and> (r = [] \<or> (hd r = CHR ''.'' \<and> tl r \<noteq> [] \<and> list_all is_digit (tl r))))"

section \<open>The direct path of \<open>process_query\<close>\<close>

lemma asyncio_not_bound:
  "load_global currency_service_globals ''asyncio''
     = Inl (NameError ''name 'asyncio' is not defined'')"
  by (simp add: load_global_def currency_service_globals_def quoted_def)

lemma convert_multiple_currencies_raises:
  "convert_multiple_currencies w conversions
     = (Inl (Exception ''Multiple currency conversion failed: name 'asyncio' is not defined''), [])"
  by (simp add: convert_multiple_currencies_def asyncio_not_bound)

lemma process_query_direct:
  assumes "extract_conversions q \<noteq> []"
  shows "process_query w q h =
     (Inr (Str (''I apologize, but I encountered an error processing your request: ''
                @ ''Multiple currency conversion failed: name 'asyncio' is not defined'')), [])"
proof -
  from assms have "1 \<le> length (extract_conversions q)"
    by (cases "extract_conversions q") simp_all
  then show ?thesis
    by (simp add: process_query_def process_query_try_def Let_def
        convert_multiple_currencies_raises)
qed

lemma extract_convert_100_usd_eur:
  "extract_conversions ''Convert 100 USD to EUR''
     = [\<lparr>amount = 100, from_currency = ''USD'', to_currency = ''EUR''\<rparr>]"
  by code_simp

text \<open>The rate service of \<open>eur_world\<close> does answer 85.0 EUR for 100 USD, and a single
  conversion with it succeeds.\<close>

lemma convert_currency_eur_world:
  "convert_currency eur_world 100 ''USD'' ''EUR'' =
     (Inr \<lparr>amount = 100, from_currency = ''USD'', to_currency = ''EUR'',
           converted_amount = 85, exchange_rate = 85 / 100, date = ''2024-01-15''\<rparr>,
      [GetLatest 100 ''USD'' ''EUR''])"
  by code_simp

text \<open>
  C1. For the query \<open>Convert 100 USD to EUR\<close> and a rate service that answers 85.0
  EUR, \<open>process_query\<close> returns no formatted conversion: \<open>convert_multiple_currencies\<close>
  reads the name \<open>asyncio\<close>, which its module never imports, the \<open>NameError\<close> is
  wrapped twice, and the text returned is the apology of the handler. No request
  reaches the rate service.
\<close>

theorem process_query_convert_100_usd_eur:
  "process_query eur_world ''Convert 100 USD to EUR'' None =
     (Inr (Str (''I apologize, but I encountered an error processing your request: ''
                @ ''Multiple currency conversion failed: name 'asyncio' is not defined'')), [])"
  by code_simp

section \<open>The two batch engines\<close>

lemma batch_convert_currencies_map:
  "fst (batch_convert_currencies w cs) = map (batch_entry w) cs"
  by (induction cs) (auto simp: batch_entry_def split: prod.splits sum.splits)

lemma batch_convert_currencies_sent:
  "snd (batch_convert_currencies w cs)
     = concat (map (\<lambda>(a, f, t). snd (convert_currency w a f t)) cs)"
  by (induction cs) (auto split: prod.splits)

text \<open>The sequential engine keeps the length and the order, and the entry of a
  request depends on that request alone: a failing request gives a \<open>Failure\<close> and
  the requests after it are still converted.\<close>

lemma batch_convert_currencies_isolation:
  "length (fst (batch_convert_currencies w cs)) = length cs \<and>
   (\<forall>i < length cs. fst (batch_convert_currencies w cs) ! i = batch_entry w (cs ! i))"
  by (simp add: batch_convert_currencies_map)

lemma batch_convert_currencies_example:
  "fst (batch_convert_currencies eur_world
          [(100, ''USD'', ''EUR''), (50, ''XXX'', ''EUR''), (7, ''GBP'', ''EUR'')]) =
     [Success \<lparr>amount = 100, from_currency = ''USD'', to_currency = ''EUR'',
               converted_amount = 85, exchange_rate = 85 / 100, date = ''2024-01-15''\<rparr>,
      Failure ''Unsupported source currency: XXX'' (OfRequest 50 ''XXX'' ''EUR''),
      Success \<lparr>amount = 7, from_currency = ''GBP'', to_currency = ''EUR'',
               converted_amount = 85, exchange_rate = 12142857 / 1000000,
               date = ''2024-01-15''\<rparr>]"
  by code_simp

text \<open>
  C2. The concurrent engine \<open>convert_multiple_currencies\<close>, given three requests of
  which the second has an unsupported code, returns no list at all: it raises
  \<open>Exception\<close> before any conversion is attempted, because the name \<open>asyncio\<close> is
  not bound in its module.
\<close>

theorem convert_multiple_currencies_one_unsupported:
  "convert_multiple_currencies eur_world
       [\<lparr>amount = 100, from_currency = ''USD'', to_currency = ''EUR''\<rparr>,
        \<lparr>amount = 50, from_currency = ''XXX'', to_currency = ''EUR''\<rparr>,
        \<lparr>amount = 7, from_currency = ''GBP'', to_currency = ''EUR''\<rparr>] =
     (Inl (Exception ''Multiple currency conversion failed: name 'asyncio' is not defined''),
      [])"
  by code_simp

section \<open>\<open>convert_currency\<close>: what it checks before the request\<close>

lemma validate_amount_rejects:
  "a \<le> 0 \<Longrightarrow> \<exists>m. validate_amount w a = Inl (ValidationError m)"
  by (simp add: validate_amount_def)

text \<open>With supported codes \<open>convert_currency\<close> sends its request whatever the amount
  is; with an unsupported code it raises \<open>ValueError\<close> and sends nothing.\<close>

lemma convert_currency_sends:
  "f \<in> supported_currencies \<Longrightarrow> t \<in> supported_currencies \<Longrightarrow>
   snd (convert_currency w a f t) = [GetLatest a f t]"
  by (simp add: convert_currency_def convert_currency_try_def split: sum.splits)

lemma convert_currency_unsupported:
  "f \<notin> supported_currencies \<or> t \<notin> supported_currencies \<Longrightarrow>
   snd (convert_currency w a f t) = [] \<and> (\<exists>m. fst (convert_currency w a f t) = Inl (ValueError m))"
  by (auto simp: convert_currency_def convert_currency_try_def)

text \<open>The amount 0 reaches \<open>convert_currency\<close> from a query: the chat endpoint parses
  it with \<open>parse_conversion_query\<close> and converts with \<open>batch_convert_currencies\<close>.\<close>

lemma zero_amount_from_query:
  "parse_conversion_query ''0 USD to EUR'' = Inr [(0, ''USD'', ''EUR'')]"
  "batch_convert_currencies eur_world [(0, ''USD'', ''EUR'')] =
     ([Failure ''Error converting USD to EUR'' (OfRequest 0 ''USD'' ''EUR'')],
      [GetLatest 0 ''USD'' ''EUR''])"
  by code_simp+

text \<open>
  C3. \<open>convert_currency\<close> does not check the amount. For the amount 0 and supported
  codes it sends the request, divides by zero and raises the generic \<open>ValueError\<close>; for
  the amount -5 and a rate service that answers, it sends the request and returns a
  conversion.
\<close>

theorem convert_currency_nonpositive_amount:
  "convert_currency eur_world 0 ''USD'' ''EUR'' =
     (Inl (ValueError ''Error converting USD to EUR''), [GetLatest 0 ''USD'' ''EUR'']) \<and>
   convert_currency eur_world (- 5) ''USD'' ''EUR'' =
     (Inr \<lparr>amount = - 5, from_currency = ''USD'', to_currency = ''EUR'',
           converted_amount = 85, exchange_rate = - 17, date = ''2024-01-15''\<rparr>,
      [GetLatest (- 5) ''USD'' ''EUR''])"
  by code_simp

text \<open>
  C6. \<open>convert_currency\<close> has no case for equal codes: converting 100 USD to USD sends
  a request to the rate service, and when the service cannot be reached the result is
  the generic \<open>ValueError\<close>, not a conversion at the rate 1.0.
\<close>

theorem convert_currency_same_currency_offline:
  "convert_currency offline_world 100 ''USD'' ''USD'' =
     (Inl (ValueError ''Error converting USD to USD''), [GetLatest 100 ''USD'' ''USD''])"
  by code_simp

section \<open>Tool calls that fail or are not recognized\<close>





text \<open>A call that lacks a key its function reads fails in the same way.\<close>

lemma tool_call_try_missing_amount:
  "function_name tc = ''convert_currency'' \<Longrightarrow> function_arguments tc = Decoded args \<Longrightarrow>
   arg_amount args = None \<Longrightarrow>
   tool_call_try w tc = (Inl (KeyError ''amount''), [])"
  by (simp add: tool_call_try_def)





section \<open>What \<open>process_query\<close> returns on the LLM path\<close>

lemma no_conversion_in_weather_query:
  "extract_conversions ''What's the weather today?'' = []"
  by code_simp

text \<open>No exception leaves \<open>process_query\<close>, whatever the query, the history and the
  services do.\<close>

lemma process_query_never_raises: "\<exists>v. fst (process_query w q h) = Inr v"
  by (simp add: process_query_def split: prod.splits sum.splits)

text \<open>With no conversion in the query, \<open>process_query\<close> returns what
  \<open>_process_with_llm\<close> returns.\<close>

lemma process_query_llm_path:
  "extract_conversions q = [] \<Longrightarrow>
   fst (process_query w q h) = Inr (fst (process_with_llm w q h))"
  by (simp add: process_query_def process_query_try_def Let_def split: prod.splits)

text \<open>
  Each way the call of the LLM service can fail, from the answer of the service on:
  the request raises; the status is not 2xx; the body is not JSON; the body has no
  \<open>choices\<close>, an empty list of them, or a first choice without \<open>message\<close>. The
  second gives the connection apology, the others the generic apology.
\<close>

lemma llm_request_raises:
  assumes "extract_conversions q = []" and "post_chat w (chat_messages q h) = ConnectFailed m"
  shows "fst (process_query w q h) = Inr (Str generic_apology)"
  using assms
  by (simp add: process_query_llm_path process_with_llm_def process_with_llm_try_def
      fetch_json_def Let_def)

lemma llm_status_not_2xx:
  assumes "extract_conversions q = []" and "post_chat w (chat_messages q h) = Responded r"
    and "status_code r < 200 \<or> 300 \<le> status_code r"
  shows "fst (process_query w q h) = Inr (Str connect_apology)"
  using assms
  by (auto simp: process_query_llm_path process_with_llm_def process_with_llm_try_def
      fetch_json_def Let_def)

lemma llm_body_not_json:
  assumes "extract_conversions q = []" and "post_chat w (chat_messages q h) = Responded r"
    and "200 \<le> status_code r" and "status_code r < 300" and "json r = BadJson m"
  shows "fst (process_query w q h) = Inr (Str generic_apology)"
  using assms
  by (simp add: process_query_llm_path process_with_llm_def process_with_llm_try_def
      fetch_json_def Let_def)

lemma llm_body_without_message:
  assumes "extract_conversions q = []" and "post_chat w (chat_messages q h) = Responded r"
    and "200 \<le> status_code r" and "status_code r < 300" and "json r = Json data"
    and "choices data = None \<or> choices data = Some [] \<or> (\<exists>cs. choices data = Some (None # cs))"
  shows "fst (process_query w q h) = Inr (Str generic_apology)"
  using assms
  by (auto simp: process_query_llm_path process_with_llm_def process_with_llm_try_def
      fetch_json_def Let_def)

text \<open>A message without tool calls: its content is returned as it is, the default
  text stands in for a missing key, and \<open>null\<close> comes back as \<open>None\<close>.\<close>

lemma llm_plain_reply:
  assumes "extract_conversions q = []" and "post_chat w (chat_messages q h) = Responded r"
    and "200 \<le> status_code r" and "status_code r < 300" and "json r = Json data"
    and "choices data = Some (Some msg # cs)"
    and "reply_tool_calls msg = None \<or> reply_tool_calls msg = Some []"
  shows "fst (process_query w q h) =
     Inr (case reply_content msg of
            Missing \<Rightarrow> Str ''I couldn't process your request.''
          | Null \<Rightarrow> NoneValue
          | Content c \<Rightarrow> Str c)"
  using assms
  by (auto simp: process_query_llm_path process_with_llm_def process_with_llm_try_def
      fetch_json_def Let_def)

lemma llm_path_examples:
  "fst (process_query offline_world ''What's the weather today?'' None)
     = Inr (Str ''I encountered an error processing your request. Please try again.'')"
  "fst (process_query busy_llm_world ''What's the weather today?'' None)
     = Inr (Str ''I'm having trouble connecting to the AI service. Please try again.'')"
  "fst (process_query bad_body_world ''What's the weather today?'' None)
     = Inr (Str ''I encountered an error processing your request. Please try again.'')"
  "fst (process_query no_choices_world ''What's the weather today?'' None)
     = Inr (Str ''I encountered an error processing your request. Please try again.'')"
  "fst (process_query text_reply_world ''What's the weather today?'' None)
     = Inr (Str ''I only convert currencies.'')"
  "fst (process_query no_content_world ''What's the weather today?'' None)
     = Inr (Str ''I couldn't process your request.'')"
  by code_simp+

text \<open>
  C5. For the query \<open>What's the weather today?\<close>, in which the extractor finds no
  conversion, and an LLM service that answers with status 200 and a message whose
  content is \<open>null\<close> and that has no tool calls, \<open>process_query\<close> raises nothing and
  returns \<open>None\<close>, not a text: the default of \<open>message.get\<close> stands in for a missing
  key only.
\<close>

theorem process_query_null_content:
  "extract_conversions ''What's the weather today?'' = [] \<and>
   fst (process_query null_content_world ''What's the weather today?'' None) = Inr NoneValue"
  by code_simp

section \<open>What \<open>_extract_conversions\<close> finds\<close>

text \<open>How the first match of a pattern is built from the first matches of its
  parts.\<close>

lemma re_match_Cls: "P c \<Longrightarrow> re_match (Cls P) (c # cs) = Some ([], cs)"
  by (simp add: re_match_def)

lemma re_match_Many:
  assumes "list_all P ws" and "tail = [] \<or> \<not> P (hd tail)"
  shows "re_match (Many P) (ws @ tail) = Some ([], tail)"
proof -
  have "takeWhile P (ws @ tail) = ws"
    using assms by (cases tail) (auto simp: list_all_iff takeWhile_append2 intro: takeWhile_eq_all_conv[THEN iffD2])
  then show ?thesis by (simp add: re_match_def)
qed

lemma re_match_Seq:
  assumes "re_match a s = Some (g, r)" and "re_match b r = Some (h, r')"
  shows "re_match (Seq a b) s = Some (g @ h, r')"
  using assms by (auto simp: re_match_def split: list.splits)

lemma re_match_Grp:
  assumes "re_match a s = Some (g, r)"
  shows "re_match (Grp a) s = Some (take (length s - length r) s # g, r)"
  using assms by (auto simp: re_match_def split: list.splits)

lemma re_match_Alt_left: "re_match a s = Some m \<Longrightarrow> re_match (Alt a b) s = Some m"
  by (auto simp: re_match_def split: list.splits)

lemma re_match_Alt_right: "matches a s = [] \<Longrightarrow> re_match (Alt a b) s = re_match b s"
  by (simp add: re_match_def)

lemma re_match_Opt_taken: "re_match a s = Some m \<Longrightarrow> re_match (Opt a) s = Some m"
  by (auto simp: re_match_def split: list.splits)

lemma re_match_Opt_skipped: "matches a s = [] \<Longrightarrow> re_match (Opt a) s = Some ([], s)"
  by (simp add: re_match_def)

lemma code_point_dot: "code_point (CHR ''.'') = 46"
  by (simp add: code_point_def)

lemma space_not_digit: "is_space c \<Longrightarrow> \<not> is_digit c"
  by (auto simp: is_space_def is_digit_def Let_def)

lemma alpha_not_digit: "is_alpha c \<Longrightarrow> \<not> is_digit c"
  by (auto simp: is_alpha_def is_upper_def is_lower_def is_digit_def)

lemma alpha_not_space: "is_alpha c \<Longrightarrow> \<not> is_space c"
  by (auto simp: is_alpha_def is_upper_def is_lower_def is_space_def Let_def)

lemma dot_not_digit: "\<not> is_digit (CHR ''.'')"
  by (simp add: is_digit_def code_point_dot)

lemma space_not_dot: "is_space c \<Longrightarrow> c \<noteq> CHR ''.''"
  by (auto simp: is_space_def Let_def code_point_dot)

lemma alpha_not_dot: "is_alpha c \<Longrightarrow> c \<noteq> CHR ''.''"
  by (auto simp: is_alpha_def is_upper_def is_lower_def code_point_dot)

lemma re_match_digits:
  assumes "ds \<noteq> []" and "list_all is_digit ds" and "tail = [] \<or> \<not> is_digit (hd tail)"
  shows "re_match (many1 is_digit) (ds @ tail) = Some ([], tail)"
proof -
  obtain d ds' where ds: "ds = d # ds'" using assms(1) by (cases ds) auto
  have "re_match (Cls is_digit) (d # ds' @ tail) = Some ([], ds' @ tail)"
    using assms(2) ds by (simp add: re_match_Cls)
  moreover have "re_match (Many is_digit) (ds' @ tail) = Some ([], tail)"
    using assms(2,3) ds by (intro re_match_Many) simp_all
  ultimately show ?thesis
    using re_match_Seq [of "Cls is_digit" "d # ds' @ tail" "[]" "ds' @ tail" "Many is_digit" "[]" tail]
    by (simp add: many1_def ds)
qed

lemma is_number_cases:
  assumes "is_number n"
  obtains (whole) "n \<noteq> []" "list_all is_digit n"
        | (fraction) ip fp where "n = ip @ CHR ''.'' # fp" "ip \<noteq> []" "list_all is_digit ip"
            "fp \<noteq> []" "list_all is_digit fp"
proof -
  define ip where "ip = takeWhile is_digit n"
  define r where "r = dropWhile is_digit n"
  have n: "n = ip @ r" by (simp add: ip_def r_def)
  have ip: "ip \<noteq> []" "list_all is_digit ip"
    using assms by (auto simp: is_number_def Let_def ip_def list_all_iff dest: set_takeWhileD)
  have "r = [] \<or> (hd r = CHR ''.'' \<and> tl r \<noteq> [] \<and> list_all is_digit (tl r))"
    using assms by (simp add: is_number_def Let_def r_def)
  then show thesis
  proof
    assume "r = []"
    then show thesis using n ip whole by simp
  next
    assume a: "hd r = CHR ''.'' \<and> tl r \<noteq> [] \<and> list_all is_digit (tl r)"
    then have "r = CHR ''.'' # tl r" by (cases r) auto
    then show thesis using fraction [of ip "tl r"] n ip a by simp
  qed
qed

lemma re_match_number:
  assumes "is_number n" and "tail \<noteq> []" and "is_space (hd tail) \<or> is_alpha (hd tail)"
  shows "re_match number_rx (n @ tail) = Some ([], tail)"
proof -
  have nd: "\<not> is_digit (hd tail)" and ndot: "hd tail \<noteq> CHR ''.''"
    using assms(3) space_not_digit alpha_not_digit space_not_dot alpha_not_dot by blast+
  from assms(1) show ?thesis
  proof (cases rule: is_number_cases)
    case whole
    have a: "re_match (many1 is_digit) (n @ tail) = Some ([], tail)"
      using whole nd by (intro re_match_digits) simp_all
    have "matches (Seq (chr_x (CHR ''.'')) (many1 is_digit)) tail = []"
      using assms(2) ndot by (cases tail) (simp_all add: chr_x_def)
    then have b: "re_match (Opt (Seq (chr_x (CHR ''.'')) (many1 is_digit))) tail = Some ([], tail)"
      by (rule re_match_Opt_skipped)
    show ?thesis using re_match_Seq [OF a b] by (simp add: number_rx_def)
  next
    case (fraction ip fp)
    have a: "re_match (many1 is_digit) (ip @ (CHR ''.'' # fp @ tail)) = Some ([], CHR ''.'' # fp @ tail)"
      using fraction dot_not_digit by (intro re_match_digits) simp_all
    have c: "re_match (chr_x (CHR ''.'')) (CHR ''.'' # fp @ tail) = Some ([], fp @ tail)"
      by (simp add: chr_x_def re_match_Cls)
    have d: "re_match (many1 is_digit) (fp @ tail) = Some ([], tail)"
      using fraction nd by (intro re_match_digits) simp_all
    have "re_match (Seq (chr_x (CHR ''.'')) (many1 is_digit)) (CHR ''.'' # fp @ tail) = Some ([], tail)"
      using re_match_Seq [OF c d] by simp
    then have b: "re_match (Opt (Seq (chr_x (CHR ''.'')) (many1 is_digit))) (CHR ''.'' # fp @ tail) = Some ([], tail)"
      by (rule re_match_Opt_taken)
    show ?thesis using re_match_Seq [OF a b] by (simp add: number_rx_def fraction)
  qed
qed

lemma re_match_code3:
  assumes "length c = 3" and "list_all P c"
  shows "re_match (code3 P) (c @ tail) = Some ([], tail)"
proof -
  obtain x y z where c: "c = [x, y, z]"
    using assms(1) by (cases c; cases "tl c"; cases "tl (tl c)") auto
  then show ?thesis using assms(2) by (simp add: code3_def re_match_def)
qed

lemma re_match_separator:
  assumes "lower sep = ''to'' \<or> lower sep = ''in''"
  shows "re_match (Alt (lit_i ''to'') (lit_i ''in'')) (sep @ tail) = Some ([], tail)"
proof -
  have lt: "lower_char (CHR ''t'') = CHR ''t''" and lo: "lower_char (CHR ''o'') = CHR ''o''"
    and li: "lower_char (CHR ''i'') = CHR ''i''" and ln: "lower_char (CHR ''n'') = CHR ''n''"
    by (simp_all add: lower_char_def is_upper_def code_point_def)
  from assms show ?thesis
  proof
    assume "lower sep = ''to''"
    then obtain x y where "sep = [x, y]" "lower_char x = CHR ''t''" "lower_char y = CHR ''o''"
      by (auto simp: lower_def)
    then show ?thesis by (simp add: lit_i_def chr_i_def re_match_def lt lo)
  next
    assume "lower sep = ''in''"
    then obtain x y where "sep = [x, y]" "lower_char x = CHR ''i''" "lower_char y = CHR ''n''"
      by (auto simp: lower_def)
    then show ?thesis by (simp add: lit_i_def chr_i_def re_match_def lt lo li ln)
  qed
qed

lemma separator_starts_with_letter:
  assumes "lower sep = ''to'' \<or> lower sep = ''in''"
  shows "sep \<noteq> [] \<and> \<not> is_space (hd sep)"
proof -
  have k: "\<not> is_space c" if "lower_char c = CHR ''t'' \<or> lower_char c = CHR ''i''" for c
    using that by (auto simp: lower_char_def is_upper_def is_space_def Let_def code_point_def split: if_splits)
  from assms obtain x y where "sep = [x, y]" "lower_char x = CHR ''t'' \<or> lower_char x = CHR ''i''"
    by (auto simp: lower_def)
  then show ?thesis using k by simp
qed


lemma re_match_conversion:
  assumes "is_number n" "list_all is_space ws1" "length c1 = 3" "list_all is_alpha c1"
    "list_all is_space ws2" "lower sep = ''to'' \<or> lower sep = ''in''"
    "list_all is_space ws3" "length c2 = 3" "list_all is_alpha c2"
  shows "re_match conversion_pattern (n @ ws1 @ c1 @ ws2 @ sep @ ws3 @ c2 @ rest)
           = Some ([n, c1, c2], rest)"
proof -
  have c1: "c1 \<noteq> []" "is_alpha (hd c1)" using assms(3,4) by (cases c1; simp)+
  have c2: "c2 \<noteq> []" "is_alpha (hd c2)" using assms(8,9) by (cases c2; simp)+
  note sp = separator_starts_with_letter [OF assms(6)]
  have m7: "re_match (Grp (code3 is_alpha)) (c2 @ rest) = Some ([c2], rest)"
    using re_match_Grp [OF re_match_code3 [OF assms(8,9), of rest]] by simp
  have m6: "re_match (Many is_space) (ws3 @ c2 @ rest) = Some ([], c2 @ rest)"
    using assms(7) c2 by (intro re_match_Many) (simp_all add: alpha_not_space)
  have m5: "re_match (Alt (lit_i ''to'') (lit_i ''in'')) (sep @ ws3 @ c2 @ rest)
              = Some ([], ws3 @ c2 @ rest)"
    by (rule re_match_separator [OF assms(6)])
  have m4: "re_match (Many is_space) (ws2 @ sep @ ws3 @ c2 @ rest)
              = Some ([], sep @ ws3 @ c2 @ rest)"
    using assms(5) sp by (intro re_match_Many) simp_all
  have m3: "re_match (Grp (code3 is_alpha)) (c1 @ ws2 @ sep @ ws3 @ c2 @ rest)
              = Some ([c1], ws2 @ sep @ ws3 @ c2 @ rest)"
    using re_match_Grp [OF re_match_code3 [OF assms(3,4), of "ws2 @ sep @ ws3 @ c2 @ rest"]]
    by simp
  have m2: "re_match (Many is_space) (ws1 @ c1 @ ws2 @ sep @ ws3 @ c2 @ rest)
              = Some ([], c1 @ ws2 @ sep @ ws3 @ c2 @ rest)"
    using assms(2) c1 by (intro re_match_Many) (simp_all add: alpha_not_space)
  have hd1: "is_space (hd (ws1 @ c1 @ ws2 @ sep @ ws3 @ c2 @ rest))
             \<or> is_alpha (hd (ws1 @ c1 @ ws2 @ sep @ ws3 @ c2 @ rest))"
    using assms(2) c1 by (cases ws1) simp_all
  have "re_match number_rx (n @ ws1 @ c1 @ ws2 @ sep @ ws3 @ c2 @ rest)
          = Some ([], ws1 @ c1 @ ws2 @ sep @ ws3 @ c2 @ rest)"
    using assms(1) c1 hd1 by (intro re_match_number) simp_all
  from re_match_Grp [OF this]
  have m1: "re_match (Grp number_rx) (n @ ws1 @ c1 @ ws2 @ sep @ ws3 @ c2 @ rest)
              = Some ([n], ws1 @ c1 @ ws2 @ sep @ ws3 @ c2 @ rest)"
    by simp
  note s67 = re_match_Seq [OF m6 m7]
  note s57 = re_match_Seq [OF m5 s67]
  note s47 = re_match_Seq [OF m4 s57]
  note s37 = re_match_Seq [OF m3 s47]
  note s27 = re_match_Seq [OF m2 s37]
  note s17 = re_match_Seq [OF m1 s27]
  then show ?thesis by (simp add: conversion_pattern_def)
qed

lemma no_match_without_digit:
  "s = [] \<or> \<not> is_digit (hd s) \<Longrightarrow> re_match conversion_pattern s = None"
  by (cases s) (auto simp: re_match_def conversion_pattern_def number_rx_def many1_def)

lemma findall_skip:
  "list_all (\<lambda>c. \<not> is_digit c) pre \<Longrightarrow>
   findall conversion_pattern (pre @ s) = findall conversion_pattern s"
  by (induction pre) (simp_all add: no_match_without_digit)

lemma is_number_not_empty: "is_number n \<Longrightarrow> n \<noteq> []"
  by (auto simp: is_number_def Let_def)

lemma findall_conversion:
  assumes "list_all (\<lambda>c. \<not> is_digit c) pre"
    "is_number n" "list_all is_space ws1" "length c1 = 3" "list_all is_alpha c1"
    "list_all is_space ws2" "lower sep = ''to'' \<or> lower sep = ''in''"
    "list_all is_space ws3" "length c2 = 3" "list_all is_alpha c2"
  shows "findall conversion_pattern (pre @ n @ ws1 @ c1 @ ws2 @ sep @ ws3 @ c2 @ rest)
           = [n, c1, c2] # findall conversion_pattern rest"
proof -
  let ?s = "n @ ws1 @ c1 @ ws2 @ sep @ ws3 @ c2 @ rest"
  have m: "re_match conversion_pattern ?s = Some ([n, c1, c2], rest)"
    using assms(2-10) by (rule re_match_conversion)
  obtain d ds where s: "?s = d # ds"
    using is_number_not_empty [OF assms(2)] by (cases n) auto
  have "length rest < length ?s" using is_number_not_empty [OF assms(2)] by simp
  then have "findall conversion_pattern ?s = [n, c1, c2] # findall conversion_pattern rest"
    using m unfolding s by simp
  then show ?thesis using findall_skip [OF assms(1)] by simp
qed

text \<open>The extractor of \<open>validators.py\<close> does know the separator \<open>into\<close>; it maps
  \<open>yen\<close> to a code, drops a repeated conversion and drops the amount 0.\<close>

lemma ConversionExtractor_examples:
  "ConversionExtractor_extract_conversions eur_world ''100 USD into EUR''
     = [(100, ''USD'', ''EUR'')]"
  "ConversionExtractor_extract_conversions eur_world ''100 yen to usd'' = [(100, ''JPY'', ''USD'')]"
  "ConversionExtractor_extract_conversions eur_world ''5 USD to EUR and 5 usd to eur''
     = [(5, ''USD'', ''EUR'')]"
  "ConversionExtractor_extract_conversions eur_world ''0 USD to EUR'' = []"
  by code_simp+

text \<open>
  C7, as the code has it. Let a text hold, after a prefix without digits, a phrase made
  of a number (digits, or digits, a dot and digits), a code of three letters, one of
  the separators \<open>to\<close> and \<open>in\<close> and a second code of three letters, in any letter
  case, with any white space (or none) between the parts. Then the first request
  \<open>_extract_conversions\<close> returns is the one of the phrase, with the amount the number
  denotes and both codes in upper case, and the requests after it are those of the
  text that follows the phrase: requests come in the order of their phrases.
\<close>

theorem extract_conversions_phrase:
  assumes "list_all (\<lambda>c. \<not> is_digit c) pre"
    "is_number n" "list_all is_space ws1" "length c1 = 3" "list_all is_alpha c1"
    "list_all is_space ws2" "lower sep = ''to'' \<or> lower sep = ''in''"
    "list_all is_space ws3" "length c2 = 3" "list_all is_alpha c2"
  shows "extract_conversions (pre @ n @ ws1 @ c1 @ ws2 @ sep @ ws3 @ c2 @ rest)
           = \<lparr>amount = py_float n, from_currency = upper c1, to_currency = upper c2\<rparr>
             # extract_conversions rest"
  using findall_conversion [OF assms] by (simp add: extract_conversions_def)

theorem extract_conversions_phrase_witness:
  "extract_conversions ''Please convert 1.5 usd To eur and 2 GBP in JPY''
     = [\<lparr>amount = 15 / 10, from_currency = ''USD'', to_currency = ''EUR''\<rparr>,
        \<lparr>amount = 2, from_currency = ''GBP'', to_currency = ''JPY''\<rparr>]"
proof -
  have a: "extract_conversions
             (''Please convert '' @ ''1.5'' @ '' '' @ ''usd'' @ '' '' @ ''To'' @ '' '' @ ''eur''
              @ '' and 2 GBP in JPY'')
     = \<lparr>amount = py_float ''1.5'', from_currency = upper ''usd'', to_currency = upper ''eur''\<rparr>
       # extract_conversions '' and 2 GBP in JPY''"
    by (rule extract_conversions_phrase) code_simp+
  have b: "extract_conversions
             ('' and '' @ ''2'' @ '' '' @ ''GBP'' @ '' '' @ ''in'' @ '' '' @ ''JPY'' @ [])
     = \<lparr>amount = py_float ''2'', from_currency = upper ''GBP'', to_currency = upper ''JPY''\<rparr>
       # extract_conversions []"
    by (rule extract_conversions_phrase) code_simp+
  have c: "py_float ''1.5'' = 15 / 10" "py_float ''2'' = 2" "upper ''usd'' = ''USD''"
    "upper ''eur'' = ''EUR''" "upper ''GBP'' = ''GBP''" "upper ''JPY'' = ''JPY''"
    "extract_conversions [] = []"
    by code_simp+
  show ?thesis using a b by (simp add: c)
qed

text \<open>C7 as stated fails for the separator \<open>into\<close>: the alternation of the pattern is
  \<open>to|in\<close>, and after \<open>in\<close> the pattern finds \<open>to\<close> and a blank where it wants a
  code.\<close>

theorem extract_conversions_into:
  "extract_conversions ''100 USD into EUR'' = []"
  by code_simp

section \<open>Texts without a conversion\<close>

lemma findall_no_match:
  "(\<And>k. k \<le> length s \<Longrightarrow> re_match r (drop k s) = None) \<Longrightarrow> findall r s = []"
proof (induction s)
  case Nil
  from Nil [of 0] show ?case by simp
next
  case (Cons c cs)
  have "re_match r (c # cs) = None" using Cons.prems [of 0] by simp
  moreover have "findall r cs = []"
  proof (rule Cons.IH)
    fix k assume "k \<le> length cs"
    then show "re_match r (drop k cs) = None" using Cons.prems [of "Suc k"] by simp
  qed
  ultimately show ?case by simp
qed

lemma split_on_not_empty: "split_on sep s \<noteq> []"
  by (induction s) (auto split: list.splits)

lemma parse_conversion_query_never_empty: "parse_conversion_query q \<noteq> Inr []"
  by (simp add: parse_conversion_query_def split: sum.splits)

lemma dropWhile_rev_dropWhile:
  "dropWhile P (rev (dropWhile P (rev (dropWhile P s)))) = rev (dropWhile P (rev (dropWhile P s)))"
proof -
  define a where "a = dropWhile P s"
  define b where "b = dropWhile P (rev a)"
  show ?thesis
  proof (cases "b = []")
    case True
    then have "dropWhile P (rev (dropWhile P s)) = []" by (simp only: a_def b_def)
    then show ?thesis by (simp only: rev.simps dropWhile.simps)
  next
    case False
    then have "a \<noteq> []" by (auto simp: b_def)
    then have na: "\<not> P (hd a)" unfolding a_def by (rule hd_dropWhile)
    obtain p where p: "rev a = p @ b"
      unfolding b_def by (metis takeWhile_dropWhile_id)
    have "last b = last (rev a)" using False p by simp
    also have "\<dots> = hd a" using \<open>a \<noteq> []\<close> by (simp add: last_rev)
    finally have "\<not> P (hd (rev b))" using na False by (simp add: hd_rev)
    moreover have "rev b \<noteq> []" using False by simp
    ultimately have "dropWhile P (rev b) = rev b" by (cases "rev b") auto
    then show ?thesis by (simp add: a_def b_def)
  qed
qed

lemma strip_strip: "strip (strip s) = strip s"
  by (simp add: strip_def dropWhile_rev_dropWhile)

lemma parse_conversion_query_first_segment:
  assumes "re_match parse_pattern (strip (hd (split_on '' and '' q))) = None"
  shows "parse_conversion_query q = Inl (invalid_format (strip (hd (split_on '' and '' q))))"
proof -
  obtain x xs where "split_on '' and '' q = x # xs"
    using split_on_not_empty [of "'' and ''" q] by (cases "split_on '' and '' q") auto
  then show ?thesis using assms by (simp add: parse_conversion_query_def strip_strip)
qed

lemma weather_query_no_match:
  "list_all (\<lambda>k. re_match conversion_pattern (drop k ''What's the weather today?'') = None)
     [0 ..< Suc (length ''What's the weather today?'')]"
  by code_simp

lemma weather_query_no_match_all:
  "\<forall>k \<le> length ''What's the weather today?''.
     re_match conversion_pattern (drop k ''What's the weather today?'') = None"
  using weather_query_no_match unfolding list_all_iff
  by (metis atLeastLessThan_iff set_upt le_imp_less_Suc zero_le)

lemma weather_query_segment:
  "strip (hd (split_on '' and '' ''What's the weather today?'')) = ''What's the weather today?''"
  "re_match parse_pattern (strip (hd (split_on '' and '' ''What's the weather today?''))) = None"
  by code_simp+

text \<open>
  C8, as the code has it. When the pattern of \<open>_extract_conversions\<close> matches at no
  position of the text, \<open>_extract_conversions\<close> returns the empty list. The other
  extractor, \<open>parse_conversion_query\<close>, never returns an empty list: when the first
  part of the query (up to the first \<open>and\<close> between blanks) does not match its
  pattern, it raises \<open>ValueError\<close> with the text \<open>Invalid conversion format\<close> and
  that part.
\<close>

theorem extractors_without_match:
  "((\<forall>k \<le> length q. re_match conversion_pattern (drop k q) = None) \<longrightarrow>
      extract_conversions q = []) \<and>
   parse_conversion_query q \<noteq> Inr [] \<and>
   (re_match parse_pattern (strip (hd (split_on '' and '' q))) = None \<longrightarrow>
      parse_conversion_query q = Inl (invalid_format (strip (hd (split_on '' and '' q)))))"
  using findall_no_match [of q conversion_pattern] parse_conversion_query_never_empty [of q]
    parse_conversion_query_first_segment [of q]
  by (simp add: extract_conversions_def)

theorem extractors_without_match_witness:
  "list_all (\<lambda>k. re_match conversion_pattern (drop k ''What's the weather today?'') = None)
     [0 ..< Suc (length ''What's the weather today?'')] \<and>
   extract_conversions ''What's the weather today?'' = [] \<and>
   re_match parse_pattern (strip (hd (split_on '' and '' ''What's the weather today?''))) = None \<and>
   parse_conversion_query ''What's the weather today?''
     = Inl (invalid_format ''What's the weather today?'')"
  using extractors_without_match [of "''What's the weather today?''"]
    weather_query_no_match weather_query_no_match_all weather_query_segment
  by simp

text \<open>C8 as stated fails for \<open>parse_conversion_query\<close>: on a query without a
  conversion it raises.\<close>

theorem parse_conversion_query_raises:
  "parse_conversion_query ''What's the weather today?''
     = Inl (ValueError (''Invalid conversion format: 'What's the weather today?'. ''
              @ ''Use format: '100 USD to EUR' or '100 USD to EUR and 50 GBP to JPY''
              @ [CHR 0x27]))"
  by code_simp

section \<open>The date of \<open>get_historical_rate\<close>\<close>








lemma validate_date_string_floor:
  "strptime s = Inr d \<Longrightarrow> date_less d min_date \<Longrightarrow>
   \<exists>m. validate_date_string w s = Inl (ValidationError m)"
  by (simp add: validate_date_string_def)

lemma validate_date_string_future:
  "strptime s = Inr d \<Longrightarrow> date_less (today w) d \<Longrightarrow>
   \<exists>m. validate_date_string w s = Inl (ValidationError m)"
  by (simp add: validate_date_string_def)

text \<open>The format check is the one of \<open>strptime\<close>: a month or a day of one digit
  parses, a day the month does not have does not.\<close>

lemma strptime_examples:
  "strptime ''2024-1-5'' = Inr (2024, 1, 5)"
  "strptime ''2024-02-30'' = Inl (ValueError ''day is out of range for month'')"
  by code_simp+





section \<open>The direct path does not read the history\<close>

text \<open>
  C10. When the query holds at least one conversion, the text \<open>process_query\<close> returns
  and the requests it sends are the same for any two conversation histories, in the
  same world.
\<close>

theorem process_query_ignores_history:
  "extract_conversions q \<noteq> [] \<Longrightarrow> process_query w q h1 = process_query w q h2"
  by (cases "extract_conversions q")
     (simp_all add: process_query_def process_query_try_def Let_def)

theorem process_query_ignores_history_witness:
  "extract_conversions ''Convert 100 USD to EUR'' \<noteq> [] \<and>
   process_query eur_world ''Convert 100 USD to EUR'' None
     = process_query eur_world ''Convert 100 USD to EUR''
         (Some [\<lparr>role = ''user'', content = ''Use yesterday's rate''\<rparr>])"
  using process_query_ignores_history
          [of "''Convert 100 USD to EUR''" eur_world None
              "Some [\<lparr>role = ''user'', content = ''Use yesterday's rate''\<rparr>]"]
  by (simp add: extract_convert_100_usd_eur)

end
